theory Spec2Isabelle
  imports Complex_Main
begin

unbundle bit_operations_syntax

section \<open>JavaScript values of the interpreter\<close>

text \<open>
  The interpreter of \<^verbatim>\<open>src/jsip-8.js\<close> keeps its registers, program counter, stack
  and memory in ordinary JavaScript arrays and fields. A slot of those holds
  \<^verbatim>\<open>undefined\<close> (a hole of \<^verbatim>\<open>new Array(16)\<close>, or a read past the end), \<^verbatim>\<open>NaN\<close>
  (what \<^verbatim>\<open>undefined + 2\<close> gives) or a finite number. Numbers are modelled exactly, as
  rationals: \<^verbatim>\<open>/= 2\<close> of \<^verbatim>\<open>8xy6\<close> leaves the integers, and no other operation of the
  program leaves the dyadic rationals. The rounding of IEEE doubles beyond \<open>2^53\<close> and
  the infinities are not part of the model.
\<close>

datatype jsval = Undefined | NaN | Num rat

text \<open>
  The display array holds numbers after \<^verbatim>\<open>reset\<close>, and references to a row array after
  \<^verbatim>\<open>clearScreen\<close>. A row reference is an address into the store of row arrays.
\<close>

datatype cell = Prim jsval | Row nat

datatype error = ReferenceError | ArrayInRegister

text \<open>
  \<^verbatim>\<open>ToInt32\<close> of ECMAScript, on the values above: truncation towards zero, then
  wrap-around into the signed 32-bit range; \<^verbatim>\<open>undefined\<close> and \<^verbatim>\<open>NaN\<close> give 0.
\<close>

definition js_trunc :: "rat \<Rightarrow> int" where
  "js_trunc q = (if 0 \<le> q then \<lfloor>q\<rfloor> else \<lceil>q\<rceil>)"

definition int32 :: "int \<Rightarrow> int" where
  "int32 n = signed_take_bit 31 n"

fun toInt32 :: "jsval \<Rightarrow> int" where
  "toInt32 (Num q) = int32 (js_trunc q)"
| "toInt32 _ = 0"

definition num :: "int \<Rightarrow> jsval" where
  "num n = Num (of_int n)"

text \<open>The arithmetic operators; no operand is a string, so \<^verbatim>\<open>+\<close> is numeric addition.\<close>

fun js_add :: "jsval \<Rightarrow> jsval \<Rightarrow> jsval" where
  "js_add (Num p) (Num q) = Num (p + q)"
| "js_add _ _ = NaN"

fun js_sub :: "jsval \<Rightarrow> jsval \<Rightarrow> jsval" where
  "js_sub (Num p) (Num q) = Num (p - q)"
| "js_sub _ _ = NaN"

fun js_mul :: "jsval \<Rightarrow> jsval \<Rightarrow> jsval" where
  "js_mul (Num p) (Num q) = Num (p * q)"
| "js_mul _ _ = NaN"

text \<open>\<^verbatim>\<open>a / 2\<close>, the only division of the program.\<close>

fun js_half :: "jsval \<Rightarrow> jsval" where
  "js_half (Num p) = Num (p / 2)"
| "js_half _ = NaN"

text \<open>Relational operators: a comparison with \<^verbatim>\<open>NaN\<close> or \<^verbatim>\<open>undefined\<close> is false.\<close>

fun js_gt :: "jsval \<Rightarrow> jsval \<Rightarrow> bool" where
  "js_gt (Num p) (Num q) = (q < p)"
| "js_gt _ _ = False"

fun js_lt :: "jsval \<Rightarrow> jsval \<Rightarrow> bool" where
  "js_lt (Num p) (Num q) = (p < q)"
| "js_lt _ _ = False"

text \<open>Strict equality \<^verbatim>\<open>===\<close>: \<^verbatim>\<open>NaN\<close> equals nothing, not even itself.\<close>

fun js_seq :: "jsval \<Rightarrow> jsval \<Rightarrow> bool" where
  "js_seq (Num p) (Num q) = (p = q)"
| "js_seq Undefined Undefined = True"
| "js_seq _ _ = False"

text \<open>Bitwise operators work on \<^verbatim>\<open>ToInt32\<close> of their operands and give a 32-bit integer.\<close>

definition js_band :: "jsval \<Rightarrow> jsval \<Rightarrow> int" where
  "js_band a b = toInt32 a AND toInt32 b"

definition js_bor :: "jsval \<Rightarrow> jsval \<Rightarrow> int" where
  "js_bor a b = toInt32 a OR toInt32 b"

definition js_bxor :: "jsval \<Rightarrow> jsval \<Rightarrow> int" where
  "js_bxor a b = toInt32 a XOR toInt32 b"

definition js_shl :: "jsval \<Rightarrow> nat \<Rightarrow> int" where
  "js_shl a k = int32 (push_bit (k mod 32) (toInt32 a))"

definition is_index :: "rat \<Rightarrow> bool" where
  "is_index q \<longleftrightarrow> 0 \<le> q \<and> of_int \<lfloor>q\<rfloor> = q"

text \<open>
  Array reads and writes. A read outside the array gives \<^verbatim>\<open>undefined\<close>; a write past the
  end extends the array with holes.
\<close>

definition arr_get :: "jsval list \<Rightarrow> nat \<Rightarrow> jsval" where
  "arr_get xs k = (if k < length xs then xs ! k else Undefined)"

definition arr_set :: "jsval list \<Rightarrow> nat \<Rightarrow> jsval \<Rightarrow> jsval list" where
  "arr_set xs k a =
     (if k < length xs then xs[k := a]
      else xs @ replicate (k - length xs) Undefined @ [a])"

text \<open>A read \<^verbatim>\<open>xs[k]\<close> whose key is a value: only a non-negative integer names an element.\<close>

fun arr_get_val :: "jsval list \<Rightarrow> jsval \<Rightarrow> jsval" where
  "arr_get_val xs (Num q) = (if is_index q then arr_get xs (nat \<lfloor>q\<rfloor>) else Undefined)"
| "arr_get_val xs _ = Undefined"

fun arr_get_int :: "jsval list \<Rightarrow> int \<Rightarrow> jsval" where
  "arr_get_int xs k = (if 0 \<le> k then arr_get xs (nat k) else Undefined)"

section \<open>The state of \<^verbatim>\<open>JSip8\<close>\<close>

text \<open>
  The fields of the class, under their names; \<^verbatim>\<open>this.v\<close> is \<open>vreg\<close> and \<^verbatim>\<open>this.i\<close> is
  \<open>ireg\<close>. \<open>screen\<close> maps a property key of the display array to its entry; \<open>rows\<close> is
  the store of the row arrays that \<^verbatim>\<open>clearScreen\<close> allocates, a row reference \<open>Row a\<close>
  naming \<open>rows ! a\<close>.
\<close>

record state =
  memory :: "jsval list"
  stack :: "jsval list"
  pc :: jsval
  sp :: int
  vreg :: "jsval list"
  ireg :: nat
  delayTimer :: int
  soundTimer :: int
  lastCommandRun :: int
  screen :: "jsval \<rightharpoonup> cell"
  rows :: "jsval list list"

definition SCREEN_WIDTH :: rat where
  "SCREEN_WIDTH = 0x3f"

definition SCREEN_HEIGHT :: rat where
  "SCREEN_HEIGHT = 0x1f"

text \<open>\<^verbatim>\<open>new Array(n).fill(a)\<close> as a map from keys.\<close>

definition filled :: "rat \<Rightarrow> cell \<Rightarrow> (jsval \<rightharpoonup> cell)" where
  "filled n a = (\<lambda>k. case k of Num q \<Rightarrow> if is_index q \<and> q < n then Some a else None
                        | _ \<Rightarrow> None)"

text \<open>\<^verbatim>\<open>reset\<close>; \<open>now\<close> is the reading of the clock.\<close>

definition reset :: "int \<Rightarrow> state \<Rightarrow> state" where
  "reset now st = st\<lparr>
     memory := replicate 4096 Undefined,
     stack := replicate 16 Undefined,
     pc := Num 0,
     sp := 0,
     vreg := replicate 16 Undefined,
     ireg := 0,
     delayTimer := 0,
     soundTimer := 0,
     lastCommandRun := now,
     screen := filled (SCREEN_WIDTH * SCREEN_HEIGHT) (Prim (Num 0))\<rparr>"

section \<open>Timers\<close>

definition executeDelayTimer :: "state \<Rightarrow> state" where
  "executeDelayTimer st =
     (if 0 < delayTimer st then st\<lparr>delayTimer := delayTimer st - 1\<rparr> else st)"

definition executeSoundTimer :: "state \<Rightarrow> state" where
  "executeSoundTimer st =
     (if 0 < soundTimer st then st\<lparr>soundTimer := soundTimer st - 1\<rparr> else st)"

section \<open>The display\<close>

text \<open>
  \<^verbatim>\<open>ToInt32\<close> of a display entry. An array is converted through its string form, the
  elements joined by commas: an array of two or more elements gives a string that is not a
  number, hence 0; an empty array gives the empty string, hence 0; an array of one element
  gives what the element gives.
\<close>

definition toInt32_cell :: "state \<Rightarrow> cell \<Rightarrow> int" where
  "toInt32_cell st c =
     (case c of
        Prim a \<Rightarrow> toInt32 a
      | Row r \<Rightarrow> (let row = (if r < length (rows st) then rows st ! r else [])
                  in if length row = 1 then toInt32 (row ! 0) else 0))"

text \<open>
  \<^verbatim>\<open>drawPixel(x, y)\<close> returns the old entry and the new state. The entry at \<open>location\<close>
  is read, then overwritten by \<^verbatim>\<open>entry ^ 1\<close>; a missing entry reads \<^verbatim>\<open>undefined\<close>.
\<close>

definition drawPixel :: "jsval \<Rightarrow> jsval \<Rightarrow> state \<Rightarrow> cell \<times> state" where
  "drawPixel x y st =
     (let x = (if js_gt x (Num SCREEN_WIDTH) then js_sub x (Num SCREEN_WIDTH)
               else if js_lt x (Num 0) then js_add x (Num SCREEN_WIDTH)
               else x);
          y = (if js_gt y (Num SCREEN_HEIGHT) then js_sub y (Num SCREEN_HEIGHT)
               else if js_lt y (Num 0) then js_add y (Num SCREEN_HEIGHT)
               else y);
          location = js_add x (js_mul y (Num SCREEN_WIDTH));
          hadAlreadyAPixel = (case screen st location of
                                None \<Rightarrow> Prim Undefined
                              | Some c \<Rightarrow> c)
      in (hadAlreadyAPixel,
          st\<lparr>screen := (screen st)(location \<mapsto>
                Prim (num (toInt32_cell st hadAlreadyAPixel XOR 1)))\<rparr>))"

text \<open>
  \<^verbatim>\<open>clearScreen\<close>: one row array of \<open>0x1f\<close> zeros is allocated, and each of the \<open>0x3f\<close>
  entries of the new display array is a reference to it.
\<close>

definition clearScreen :: "state \<Rightarrow> state" where
  "clearScreen st =
     st\<lparr>rows := rows st @ [replicate 0x1f (Num 0)],
        screen := filled 0x3f (Row (length (rows st)))\<rparr>"

section \<open>Instructions\<close>

definition getV :: "state \<Rightarrow> nat \<Rightarrow> jsval" where
  "getV st k = arr_get (vreg st) k"

definition setV :: "nat \<Rightarrow> jsval \<Rightarrow> state \<Rightarrow> state" where
  "setV k a st = st\<lparr>vreg := arr_set (vreg st) k a\<rparr>"

text \<open>\<^verbatim>\<open>const opcode = (byte1 << 8) | byte2\<close>\<close>

definition opcode_of :: "jsval \<Rightarrow> jsval \<Rightarrow> int" where
  "opcode_of byte1 byte2 = js_shl byte1 8 OR toInt32 byte2"

text \<open>The operand fields: \<^verbatim>\<open>(opcode >> 8) & 0x000f\<close> and \<^verbatim>\<open>(opcode >> 4) & 0x000f\<close>.\<close>

definition field_x :: "int \<Rightarrow> nat" where
  "field_x opcode = nat (drop_bit 8 opcode AND 0x000f)"

definition field_y :: "int \<Rightarrow> nat" where
  "field_y opcode = nat (drop_bit 4 opcode AND 0x000f)"

text \<open>\<^verbatim>\<open>00EE\<close>\<close>

definition op_RET :: "state \<Rightarrow> state" where
  "op_RET st = st\<lparr>pc := arr_get_int (stack st) (sp st), sp := sp st - 1\<rparr>"

text \<open>\<^verbatim>\<open>1nnn\<close>\<close>

definition op_JP :: "int \<Rightarrow> state \<Rightarrow> state" where
  "op_JP opcode st = st\<lparr>pc := num (opcode AND 0x0fff)\<rparr>"

text \<open>\<^verbatim>\<open>2nnn\<close>: \<^verbatim>\<open>push\<close> appends after the last element of the array.\<close>

definition op_CALL :: "int \<Rightarrow> state \<Rightarrow> state" where
  "op_CALL opcode st =
     st\<lparr>sp := sp st + 1, stack := stack st @ [pc st], pc := num (opcode AND 0x0fff)\<rparr>"

text \<open>\<^verbatim>\<open>3xkk\<close>, \<^verbatim>\<open>4xkk\<close>, \<^verbatim>\<open>5xy0\<close>\<close>

definition op_SE_byte :: "int \<Rightarrow> state \<Rightarrow> state" where
  "op_SE_byte opcode st =
     (let vIndex = field_x opcode
      in if js_seq (getV st vIndex) (num (opcode AND 0x00ff))
         then st\<lparr>pc := js_add (pc st) (Num 2)\<rparr> else st)"

definition op_SNE_byte :: "int \<Rightarrow> state \<Rightarrow> state" where
  "op_SNE_byte opcode st =
     (let vIndex = field_x opcode
      in if \<not> js_seq (getV st vIndex) (num (opcode AND 0x00ff))
         then st\<lparr>pc := js_add (pc st) (Num 2)\<rparr> else st)"

definition op_SE_reg :: "int \<Rightarrow> state \<Rightarrow> state" where
  "op_SE_reg opcode st =
     (let vxIndex = field_x opcode; vyIndex = field_y opcode
      in if js_seq (getV st vxIndex) (getV st vyIndex)
         then st\<lparr>pc := js_add (pc st) (Num 2)\<rparr> else st)"

text \<open>\<^verbatim>\<open>6xkk\<close>\<close>

definition op_LD_byte :: "int \<Rightarrow> state \<Rightarrow> state" where
  "op_LD_byte opcode st =
     (let vx = field_x opcode; kk = opcode AND 0x00ff
      in setV vx (num kk) st)"

text \<open>\<^verbatim>\<open>7xkk\<close>: \<^verbatim>\<open>this.v[vx] = vx + kk\<close>\<close>

definition op_ADD_byte :: "int \<Rightarrow> state \<Rightarrow> state" where
  "op_ADD_byte opcode st =
     (let vx = field_x opcode; kk = opcode AND 0xff
      in setV vx (num (int vx + kk)) st)"

text \<open>
  The group \<^verbatim>\<open>8xy_\<close>. Each branch is the sequence of assignments of the source: a later
  read of a register sees an earlier write of the same branch, so \<^verbatim>\<open>this.v[0xf]\<close> is
  written before \<^verbatim>\<open>this.v[x]\<close> is read again.
\<close>

definition op_LD_reg :: "nat \<Rightarrow> nat \<Rightarrow> state \<Rightarrow> state" where
  "op_LD_reg x y st = setV x (getV st y) st"

definition op_OR :: "nat \<Rightarrow> nat \<Rightarrow> state \<Rightarrow> state" where
  "op_OR x y st = setV x (num (js_bor (getV st x) (getV st y))) st"

definition op_AND :: "nat \<Rightarrow> nat \<Rightarrow> state \<Rightarrow> state" where
  "op_AND x y st = setV x (num (js_band (getV st x) (getV st y))) st"

definition op_XOR :: "nat \<Rightarrow> nat \<Rightarrow> state \<Rightarrow> state" where
  "op_XOR x y st = setV x (num (js_bxor (getV st x) (getV st y))) st"

text \<open>\<^verbatim>\<open>8xy4\<close>: the test is \<^verbatim>\<open>x + y > 255\<close>, on the two register indices.\<close>

definition op_ADD_reg :: "nat \<Rightarrow> nat \<Rightarrow> state \<Rightarrow> state" where
  "op_ADD_reg x y st =
     (if int x + int y > 255
      then (let st1 = setV 0xf (Num 1) st
            in setV x (num (js_band (js_add (getV st1 x) (getV st1 y)) (Num 0x00ff))) st1)
      else (let st1 = setV 0xf (Num 0) st
            in setV x (js_add (getV st1 x) (getV st1 y)) st1))"

definition op_SUB :: "nat \<Rightarrow> nat \<Rightarrow> state \<Rightarrow> state" where
  "op_SUB x y st =
     (let st1 = (if js_gt (getV st x) (getV st y) then setV 0xf (Num 1) st
                 else setV 0xf (Num 0) st);
          st2 = setV x (js_sub (getV st1 x) (getV st1 y)) st1
      in if js_lt (getV st2 x) (Num 0)
         then setV x (js_add (getV st2 x) (Num 256)) st2 else st2)"

definition op_SHR :: "nat \<Rightarrow> nat \<Rightarrow> state \<Rightarrow> state" where
  "op_SHR x y st =
     (let leastSignificantBit = js_band (getV st x) (Num 1);
          st1 = setV 0xf (if leastSignificantBit = 1 then Num 1 else Num 0) st
      in setV x (js_half (getV st1 x)) st1)"

definition op_SUBN :: "nat \<Rightarrow> nat \<Rightarrow> state \<Rightarrow> state" where
  "op_SUBN x y st =
     (let st1 = (if js_gt (getV st y) (getV st x) then setV 0xf (Num 1) st
                 else setV 0xf (Num 0) st);
          st2 = setV x (js_sub (getV st1 y) (getV st1 x)) st1
      in if js_lt (getV st2 x) (Num 0)
         then setV x (js_add (getV st2 x) (Num 256)) st2 else st2)"

text \<open>\<^verbatim>\<open>8xyE\<close>: \<^verbatim>\<open>this.v[0xf] = this.v[x] & 0x80; this.v[x] <<= 1\<close>\<close>

definition op_SHL :: "nat \<Rightarrow> nat \<Rightarrow> state \<Rightarrow> state" where
  "op_SHL x y st =
     (let st1 = setV 0xf (num (js_band (getV st x) (Num 0x80))) st
      in setV x (num (js_shl (getV st1 x) 1)) st1)"

definition op_ALU :: "int \<Rightarrow> state \<Rightarrow> state" where
  "op_ALU opcode st =
     (let lastByte = opcode AND 0x000f; x = field_x opcode; y = field_y opcode
      in if lastByte = 0x0 then op_LD_reg x y st
         else if lastByte = 0x1 then op_OR x y st
         else if lastByte = 0x2 then op_AND x y st
         else if lastByte = 0x3 then op_XOR x y st
         else if lastByte = 0x4 then op_ADD_reg x y st
         else if lastByte = 0x5 then op_SUB x y st
         else if lastByte = 0x6 then op_SHR x y st
         else if lastByte = 0x7 then op_SUBN x y st
         else if lastByte = 0xe then op_SHL x y st
         else st)"

text \<open>\<^verbatim>\<open>Annn\<close> and \<^verbatim>\<open>Bnnn\<close>\<close>

definition op_LD_I :: "int \<Rightarrow> state \<Rightarrow> state" where
  "op_LD_I opcode st = st\<lparr>ireg := nat (opcode AND 0x0fff)\<rparr>"

definition op_JP_V0 :: "int \<Rightarrow> state \<Rightarrow> state" where
  "op_JP_V0 opcode st = st\<lparr>pc := js_add (num (opcode AND 0x0fff)) (getV st 0)\<rparr>"

text \<open>
  \<^verbatim>\<open>Dxyn\<close>. The two loops declare their own \<^verbatim>\<open>y\<close> and \<^verbatim>\<open>x\<close>: the registers read are
  \<^verbatim>\<open>this.v[x]\<close> and \<^verbatim>\<open>this.v[y]\<close> at the loop counters. \<open>drw_cols\<close> is the inner loop
  from column \<open>x\<close> on, \<open>drw_rows\<close> the outer loop from row \<open>y\<close> on.

  When \<^verbatim>\<open>drawPixel\<close> returns a row array (a pixel drawn after \<^verbatim>\<open>clearScreen\<close>), the source
  stores the array in \<^verbatim>\<open>this.v[0xf]\<close>. Registers that hold arrays, and the strings their
  arithmetic produces, are outside the values modelled: the model stops there with
  \<open>ArrayInRegister\<close>, which is no exception of the source.
\<close>

function drw_cols :: "nat \<Rightarrow> nat \<Rightarrow> jsval \<Rightarrow> state \<Rightarrow> (error \<times> state) + state" where
  "drw_cols y x sprite st =
     (if x < 8
      then (if js_band sprite (Num 0x80) > 0
            then (case drawPixel (js_add (getV st x) (num (int x)))
                                 (js_add (getV st y) (num (int y))) st of
                    (Row r, st') \<Rightarrow> Inl (ArrayInRegister, st')
                  | (Prim hadAlreadyAPixel, st') \<Rightarrow>
                      drw_cols y (x + 1) (num (js_shl sprite 1))
                        (setV 0xf hadAlreadyAPixel st'))
            else drw_cols y (x + 1) (num (js_shl sprite 1)) st)
      else Inr st)"
  by pat_completeness auto
termination
  by (relation "measure (\<lambda>(y, x, sprite, st). 8 - x)") auto

function drw_rows :: "nat \<Rightarrow> nat \<Rightarrow> state \<Rightarrow> (error \<times> state) + state" where
  "drw_rows n y st =
     (if y < n
      then (case drw_cols y 0 (arr_get (memory st) (ireg st + y)) st of
              Inl e \<Rightarrow> Inl e
            | Inr st' \<Rightarrow> drw_rows n (y + 1) st')
      else Inr st)"
  by pat_completeness auto
termination
  by (relation "measure (\<lambda>(n, y, st). n - y)") auto

declare drw_cols.simps [simp del]
declare drw_rows.simps [simp del]

definition op_DRW :: "int \<Rightarrow> state \<Rightarrow> (error \<times> state) + state" where
  "op_DRW opcode st = (let n = nat (opcode AND 0x000f) in drw_rows n 0 st)"

text \<open>
  \<^verbatim>\<open>executeOpcode\<close>. The branches \<^verbatim>\<open>0x9000\<close> and \<^verbatim>\<open>0xc000\<close> read \<^verbatim>\<open>x\<close> and \<^verbatim>\<open>y\<close>, which
  are declared with \<^verbatim>\<open>const\<close> inside the block of the branch \<^verbatim>\<open>0x8000\<close> only, and
  nowhere else in the file: the read raises \<^verbatim>\<open>ReferenceError\<close>, before any assignment
  of the branch. The branches \<^verbatim>\<open>0xe000\<close> and \<^verbatim>\<open>0xf000\<close> only write to the console. An
  error result carries the state at the moment of the throw.
\<close>

definition executeOpcode :: "jsval \<Rightarrow> jsval \<Rightarrow> state \<Rightarrow> (error \<times> state) + state" where
  "executeOpcode byte1 byte2 st =
     (let opcode = opcode_of byte1 byte2; group = opcode AND 0xf000
      in if group = 0x0000
         then (if opcode = 0x00e0 then Inr (clearScreen st)
               else if opcode = 0x0ee then Inr (op_RET st)
               else Inr st)
         else if group = 0x1000 then Inr (op_JP opcode st)
         else if group = 0x2000 then Inr (op_CALL opcode st)
         else if group = 0x3000 then Inr (op_SE_byte opcode st)
         else if group = 0x4000 then Inr (op_SNE_byte opcode st)
         else if group = 0x5000 then Inr (op_SE_reg opcode st)
         else if group = 0x6000 then Inr (op_LD_byte opcode st)
         else if group = 0x7000 then Inr (op_ADD_byte opcode st)
         else if group = 0x8000 then Inr (op_ALU opcode st)
         else if group = 0x9000 then Inl (ReferenceError, st)
         else if group = 0xa000 then Inr (op_LD_I opcode st)
         else if group = 0xb000 then Inr (op_JP_V0 opcode st)
         else if group = 0xc000 then Inl (ReferenceError, st)
         else if group = 0xd000 then op_DRW opcode st
         else if group = 0xe000 then Inr st
         else if group = 0xf000 then Inr st
         else Inr st)"

section \<open>The cycle\<close>

text \<open>
  \<^verbatim>\<open>run\<close>, one invocation; \<open>now\<close> is the reading of the clock. When more than a second
  has passed since the last instruction, both timers are ticked, the instruction at
  \<^verbatim>\<open>this.pc\<close> is executed, and then \<^verbatim>\<open>this.pc += 2\<close> whatever the instruction was. An
  error from \<^verbatim>\<open>executeOpcode\<close> leaves \<^verbatim>\<open>run\<close> before that.
\<close>

definition run :: "int \<Rightarrow> state \<Rightarrow> (error \<times> state) + state" where
  "run now st =
     (if now - lastCommandRun st > 1000
      then (let st1 = executeDelayTimer st;
                st2 = executeSoundTimer st1
            in case executeOpcode (arr_get_val (memory st2) (pc st2))
                                  (arr_get_val (memory st2) (js_add (pc st2) (Num 1))) st2 of
                 Inl e \<Rightarrow> Inl e
               | Inr st3 \<Rightarrow> Inr (st3\<lparr>pc := js_add (pc st3) (Num 2), lastCommandRun := now\<rparr>))
      else Inr st)"

text \<open>\<^verbatim>\<open>load(program)\<close>\<close>

definition load :: "jsval list \<Rightarrow> int \<Rightarrow> state \<Rightarrow> (error \<times> state) + state" where
  "load program now st = run now (st\<lparr>memory := program\<rparr>)"

text \<open>
  The nested element read \<^verbatim>\<open>this.screen[r][c]\<close> and write \<^verbatim>\<open>this.screen[r][c] = a\<close>,
  through the row reference at \<^verbatim>\<open>this.screen[r]\<close> into the store of row arrays. The
  source has no such access; they state what a cell of the cleared display is. \<open>None\<close>
  stands for an entry \<^verbatim>\<open>this.screen[r]\<close> that is not a row array.
\<close>

definition cell_read :: "state \<Rightarrow> nat \<Rightarrow> nat \<Rightarrow> jsval option" where
  "cell_read st r c =
     (case screen st (num (int r)) of
        Some (Row a) \<Rightarrow> if a < length (rows st) then Some (arr_get (rows st ! a) c) else None
      | _ \<Rightarrow> None)"

definition cell_write :: "state \<Rightarrow> nat \<Rightarrow> nat \<Rightarrow> jsval \<Rightarrow> state option" where
  "cell_write st r c a =
     (case screen st (num (int r)) of
        Some (Row b) \<Rightarrow>
          if b < length (rows st)
          then Some (st\<lparr>rows := (rows st)[b := arr_set (rows st ! b) c a]\<rparr>)
          else None
      | _ \<Rightarrow> None)"

text \<open>\<^verbatim>\<open>new JSip8()\<close>: the constructor calls \<^verbatim>\<open>reset\<close> on a new object; no row array exists yet.\<close>

definition new_JSip8 :: "int \<Rightarrow> state" where
  "new_JSip8 now = reset now
     \<lparr>memory = [], stack = [], pc = Undefined, sp = 0, vreg = [], ireg = 0,
      delayTimer = 0, soundTimer = 0, lastCommandRun = 0, screen = Map.empty, rows = []\<rparr>"

section \<open>Concrete states\<close>

text \<open>A new interpreter whose memory holds two sprite rows, \<open>0x80\<close> and \<open>0xc0\<close>.\<close>

definition sprite_memory :: state where
  "sprite_memory = (new_JSip8 0)\<lparr>memory := [Num 0x80, Num 0xc0]\<rparr>"

text \<open>
  A new interpreter with \<open>V0 = 0\<close> and \<open>V4 = 60\<close>, whose memory holds the sprite row
  \<open>0x08\<close>: the only pixel of the row is in column 4.
\<close>

definition edge_sprite :: state where
  "edge_sprite = setV 4 (Num 60) (setV 0 (Num 0) ((new_JSip8 0)\<lparr>memory := [Num 0x08]\<rparr>))"

text \<open>The state after sixteen nested calls of \<^verbatim>\<open>2abc\<close> from a new interpreter.\<close>

definition sixteen_calls :: state where
  "sixteen_calls = (op_CALL 0x2abc ^^ 16) (new_JSip8 0)"

section \<open>Evaluation\<close>

lemmas js_defs = js_trunc_def int32_def num_def js_band_def js_bor_def js_bxor_def js_shl_def
  is_index_def arr_get_def arr_set_def SCREEN_WIDTH_def SCREEN_HEIGHT_def filled_def

lemmas op_defs = getV_def setV_def opcode_of_def field_x_def field_y_def op_RET_def op_JP_def
  op_CALL_def op_SE_byte_def op_SNE_byte_def op_SE_reg_def op_LD_byte_def op_ADD_byte_def
  op_LD_reg_def op_OR_def op_AND_def op_XOR_def op_ADD_reg_def op_SUB_def op_SHR_def
  op_SUBN_def op_SHL_def op_ALU_def op_LD_I_def op_JP_V0_def op_DRW_def executeOpcode_def
  run_def load_def executeDelayTimer_def executeSoundTimer_def reset_def new_JSip8_def
  clearScreen_def drawPixel_def toInt32_cell_def

section \<open>Timers stop at zero\<close>

lemma delay_ticks:
  "(executeDelayTimer ^^ k) (st\<lparr>delayTimer := int d\<rparr>)
     = st\<lparr>delayTimer := max (int d - int k) 0\<rparr>"
proof (induction k)
  case 0
  show ?case by simp
next
  case (Suc k)
  have "(executeDelayTimer ^^ Suc k) (st\<lparr>delayTimer := int d\<rparr>)
        = executeDelayTimer (st\<lparr>delayTimer := max (int d - int k) 0\<rparr>)"
    using Suc.IH by simp
  also have "\<dots> = st\<lparr>delayTimer := max (int d - int (Suc k)) 0\<rparr>"
    unfolding executeDelayTimer_def by (simp add: max_def)
  finally show ?case .
qed

lemma sound_ticks:
  "(executeSoundTimer ^^ k) (st\<lparr>soundTimer := int d\<rparr>)
     = st\<lparr>soundTimer := max (int d - int k) 0\<rparr>"
proof (induction k)
  case 0
  show ?case by simp
next
  case (Suc k)
  have "(executeSoundTimer ^^ Suc k) (st\<lparr>soundTimer := int d\<rparr>)
        = executeSoundTimer (st\<lparr>soundTimer := max (int d - int k) 0\<rparr>)"
    using Suc.IH by simp
  also have "\<dots> = st\<lparr>soundTimer := max (int d - int (Suc k)) 0\<rparr>"
    unfolding executeSoundTimer_def by (simp add: max_def)
  finally show ?case .
qed

text \<open>
  C9: a timer decrement is a no-op when the counter is zero, so a timer never becomes
  negative: from any starting count \<open>d\<close>, ticking \<open>k\<close> times leaves \<open>max (d - k) 0\<close>
  and changes nothing else in the state. This holds for both timers.
\<close>

theorem timer_ticks_stop_at_zero:
  "executeDelayTimer (st\<lparr>delayTimer := 0\<rparr>) = st\<lparr>delayTimer := 0\<rparr>
   \<and> executeSoundTimer (st\<lparr>soundTimer := 0\<rparr>) = st\<lparr>soundTimer := 0\<rparr>
   \<and> (executeDelayTimer ^^ k) (st\<lparr>delayTimer := int d\<rparr>)
       = st\<lparr>delayTimer := max (int d - int k) 0\<rparr>
   \<and> (executeSoundTimer ^^ k) (st\<lparr>soundTimer := int d\<rparr>)
       = st\<lparr>soundTimer := max (int d - int k) 0\<rparr>"
  by (simp add: delay_ticks sound_ticks executeDelayTimer_def executeSoundTimer_def)

text \<open>Five ticks from 3 leave 0, and a tick at 0 leaves 0.\<close>

theorem timer_ticks_stop_at_zero_witness:
  "delayTimer ((executeDelayTimer ^^ 5) ((new_JSip8 0)\<lparr>delayTimer := 3\<rparr>)) = 0
   \<and> delayTimer (executeDelayTimer ((new_JSip8 0)\<lparr>delayTimer := 0\<rparr>)) = 0"
  using timer_ticks_stop_at_zero [of "new_JSip8 0" 5 3]
    timer_ticks_stop_at_zero [of "new_JSip8 0" 0 0]
  by simp

section \<open>The cycle and jumps\<close>

text \<open>
  C1: the claim is that a jump sets the program counter itself, so that after \<^verbatim>\<open>1nnn\<close> the
  next fetch is at \<open>nnn\<close>. In the code \<^verbatim>\<open>run\<close> adds 2 after every instruction: a new
  interpreter loaded with the program \<^verbatim>\<open>12 00\<close> (jump to \<open>0x200\<close>) ends its first cycle
  with the program counter at \<open>0x202\<close>.
\<close>

theorem jump_cycle_lands_past_target:
  "\<exists>st. load [Num 0x12, Num 0x00] 2000 (new_JSip8 0) = Inr st \<and> pc st = Num 0x202"
  by (simp add: js_defs op_defs Let_def)

section \<open>Arithmetic on registers\<close>

text \<open>
  C2: the claim is that \<^verbatim>\<open>7xkk\<close> adds \<open>kk\<close> to the value stored in \<open>V[x]\<close>. In the code the
  addend is the index: with \<open>V[1] = 5\<close>, the instruction \<^verbatim>\<open>7103\<close> leaves \<open>V[1] = 4\<close>, that
  is \<open>1 + 3\<close>, not 8.
\<close>

theorem add_byte_adds_to_index:
  "\<exists>st. executeOpcode (Num 0x71) (Num 0x03) (setV 1 (Num 5) (new_JSip8 0)) = Inr st
        \<and> getV st 1 = Num 4"
  by (simp add: js_defs op_defs Let_def)

text \<open>
  C3: the claim is that \<^verbatim>\<open>8xy4\<close> sets \<open>VF\<close> to 1 when \<open>V[x] + V[y]\<close> exceeds 255 and stores
  the sum modulo 256. In the code the test is on the indices: with \<open>V[0] = 200\<close> and
  \<open>V[1] = 100\<close>, the instruction \<^verbatim>\<open>8014\<close> leaves \<open>VF = 0\<close> and \<open>V[0] = 300\<close>.
\<close>

theorem add_reg_carry_tests_indices:
  "\<exists>st. executeOpcode (Num 0x80) (Num 0x14)
            (setV 1 (Num 100) (setV 0 (Num 200) (new_JSip8 0))) = Inr st
        \<and> getV st 0xf = Num 0 \<and> getV st 0 = Num 300"
  by (simp add: js_defs op_defs Let_def)

text \<open>
  C8: the claim is that \<^verbatim>\<open>8xyE\<close> sets \<open>VF\<close> to exactly 0 or 1 and keeps \<open>V[x]\<close> below 256.
  In the code \<open>VF\<close> receives the masked byte and the shift is not reduced: with
  \<open>V[0] = 0x80\<close>, the instruction \<^verbatim>\<open>800E\<close> leaves \<open>VF = 0x80\<close> and \<open>V[0] = 0x100\<close>.
\<close>

theorem shift_left_keeps_raw_mask:
  "\<exists>st. executeOpcode (Num 0x80) (Num 0x0e) (setV 0 (Num 0x80) (new_JSip8 0)) = Inr st
        \<and> getV st 0xf = Num 0x80 \<and> getV st 0 = Num 0x100"
  by (simp add: js_defs op_defs Let_def)

section \<open>Drawing\<close>

text \<open>
  C4: the claim is that \<open>VF\<close> after \<^verbatim>\<open>Dxyn\<close> is 1 when any pixel of the sprite was turned
  off. In the code \<open>VF\<close> is the old value of the last pixel drawn. With \<open>V0 = V1 = 0\<close>, a
  first \<^verbatim>\<open>D001\<close> of the row \<open>0x80\<close> lights the pixel at location 0; after \<^verbatim>\<open>A001\<close> a
  second \<^verbatim>\<open>D001\<close> draws the row \<open>0xc0\<close>: it turns the pixel at location 0 off, lights
  the pixel at location 1, and leaves \<open>VF = 0\<close>.
\<close>

theorem collision_flag_is_last_pixel:
  "\<exists>s1 s2 s3 s4 s5.
      executeOpcode (Num 0x60) (Num 0x00) sprite_memory = Inr s1
    \<and> executeOpcode (Num 0x61) (Num 0x00) s1 = Inr s2
    \<and> executeOpcode (Num 0xd0) (Num 0x01) s2 = Inr s3
    \<and> executeOpcode (Num 0xa0) (Num 0x01) s3 = Inr s4
    \<and> executeOpcode (Num 0xd0) (Num 0x01) s4 = Inr s5
    \<and> screen s4 (Num 0) = Some (Prim (Num 1))
    \<and> screen s5 (Num 0) = Some (Prim (Num 0))
    \<and> screen s5 (Num 1) = Some (Prim (Num 1))
    \<and> getV s5 0xf = Num 0"
  by (simp add: sprite_memory_def js_defs op_defs Let_def drw_cols.simps drw_rows.simps)

text \<open>
  C6: the claim is that the display is 64 by 32 and that a coordinate outside it is
  reduced modulo 64 or 32, so that the eight pixels of a row drawn from \<open>x = 60\<close>,
  \<open>y = 0\<close> are the columns 60 to 63 and 0 to 3 of row 0. In the code the width is 63 and
  the height 31, and a coordinate above them is lowered by 63 or 31 once. The eight calls
  \<^verbatim>\<open>drawPixel(60, 0)\<close> to \<^verbatim>\<open>drawPixel(67, 0)\<close> on a new display light the locations 60, 61,
  62, 63, 1, 2, 3 and 4 and leave location 0 dark; location 63 is also the location of
  \<^verbatim>\<open>drawPixel(0, 1)\<close> and of \<^verbatim>\<open>drawPixel(0, 32)\<close>, which find it lit; \<^verbatim>\<open>D401\<close> with
  \<open>V4 = 60\<close>, \<open>V0 = 0\<close> and a sprite row whose only pixel is in column 4 lights location
  1; and the display of a new interpreter has the 1953 entries 0 to 1952.
\<close>

theorem wrap_subtracts_width_once:
  "\<exists>s1 s2 s3 s4 s5 s6 s7 s8 t1 t2 d.
      drawPixel (Num 60) (Num 0) (new_JSip8 0) = (Prim (Num 0), s1)
    \<and> drawPixel (Num 61) (Num 0) s1 = (Prim (Num 0), s2)
    \<and> drawPixel (Num 62) (Num 0) s2 = (Prim (Num 0), s3)
    \<and> drawPixel (Num 63) (Num 0) s3 = (Prim (Num 0), s4)
    \<and> drawPixel (Num 64) (Num 0) s4 = (Prim (Num 0), s5)
    \<and> drawPixel (Num 65) (Num 0) s5 = (Prim (Num 0), s6)
    \<and> drawPixel (Num 66) (Num 0) s6 = (Prim (Num 0), s7)
    \<and> drawPixel (Num 67) (Num 0) s7 = (Prim (Num 0), s8)
    \<and> screen s8 = (screen (new_JSip8 0))
          (Num 60 \<mapsto> Prim (Num 1), Num 61 \<mapsto> Prim (Num 1), Num 62 \<mapsto> Prim (Num 1),
           Num 63 \<mapsto> Prim (Num 1), Num 1 \<mapsto> Prim (Num 1), Num 2 \<mapsto> Prim (Num 1),
           Num 3 \<mapsto> Prim (Num 1), Num 4 \<mapsto> Prim (Num 1))
    \<and> screen s8 (Num 0) = Some (Prim (Num 0))
    \<and> drawPixel (Num 0) (Num 1) s8 = (Prim (Num 1), t1)
    \<and> drawPixel (Num 0) (Num 32) s8 = (Prim (Num 1), t2)
    \<and> executeOpcode (Num 0xd4) (Num 0x01) edge_sprite = Inr d
    \<and> screen d (Num 1) = Some (Prim (Num 1))
    \<and> screen d (Num 0) = Some (Prim (Num 0))
    \<and> screen (new_JSip8 0) (Num 1952) = Some (Prim (Num 0))
    \<and> screen (new_JSip8 0) (Num 1953) = None"
  by (simp add: edge_sprite_def js_defs op_defs Let_def drw_cols.simps drw_rows.simps
      nth_list_update)

text \<open>
  C5: the claim is that after \<^verbatim>\<open>00E0\<close> each of 2048 cells reads false and that the cells
  are independent. In the code the cleared display has 63 entries, all of them the same
  row array of 31 zeros: there is no entry 63, writing cell \<open>(0, 0)\<close> changes what cell
  \<open>(1, 0)\<close> reads, and the entry that \<^verbatim>\<open>drawPixel(0, 0)\<close> reads as its pixel is the row
  array, which the draw returns as the old pixel.
\<close>

theorem clear_shares_one_row:
  "\<exists>st. executeOpcode (Num 0x00) (Num 0xe0) (new_JSip8 0) = Inr st
     \<and> screen st (Num 0) = Some (Row 0)
     \<and> screen st (Num 1) = Some (Row 0)
     \<and> screen st (Num 62) = Some (Row 0)
     \<and> screen st (Num 63) = None
     \<and> rows st = [replicate 31 (Num 0)]
     \<and> cell_read st 1 0 = Some (Num 0)
     \<and> (\<exists>st'. cell_write st 0 0 (Num 1) = Some st' \<and> cell_read st' 1 0 = Some (Num 1))
     \<and> drawPixel (Num 0) (Num 0) st
          = (Row 0, st\<lparr>screen := (screen st)(Num 0 \<mapsto> Prim (Num 1))\<rparr>)"
  by (simp add: js_defs op_defs Let_def cell_read_def cell_write_def)

section \<open>Subroutines\<close>

lemma sp_op_CALL: "sp (op_CALL opcode st) = sp st + 1"
  by (simp add: op_CALL_def)

lemma sp_op_CALL_funpow: "sp ((op_CALL opcode ^^ k) st) = sp st + int k"
  by (induction k) (simp_all add: sp_op_CALL)

lemma sp_new_JSip8: "sp (new_JSip8 now) = 0"
  by (simp add: new_JSip8_def reset_def)

text \<open>
  C7, as stated, fails: the code has no stack errors. After sixteen nested calls the
  stack pointer is 16 and a further \<^verbatim>\<open>2abc\<close> succeeds; \<^verbatim>\<open>00EE\<close> on the empty stack of a new
  interpreter succeeds and leaves the stack pointer at \<open>-1\<close>; and the address that
  \<^verbatim>\<open>2abc\<close> pushes at program counter 0 is 0, the address of the call itself.
\<close>

theorem stack_errors_absent:
  "sp sixteen_calls = 16
   \<and> executeOpcode (Num 0x2a) (Num 0xbc) sixteen_calls = Inr (op_CALL 0x2abc sixteen_calls)
   \<and> executeOpcode (Num 0x00) (Num 0xee) (new_JSip8 0)
        = Inr ((new_JSip8 0)\<lparr>pc := Undefined, sp := -1\<rparr>)
   \<and> executeOpcode (Num 0x2a) (Num 0xbc) (new_JSip8 0)
        = Inr ((new_JSip8 0)\<lparr>sp := 1, stack := replicate 16 Undefined @ [Num 0],
                               pc := Num 0xabc\<rparr>)"
proof -
  have a: "sp sixteen_calls = 16"
    by (simp add: sixteen_calls_def sp_op_CALL_funpow sp_new_JSip8)
  have b: "executeOpcode (Num 0x2a) (Num 0xbc) st = Inr (op_CALL 0x2abc st)" for st
    by (simp add: js_defs opcode_of_def executeOpcode_def Let_def)
  have c: "executeOpcode (Num 0x00) (Num 0xee) (new_JSip8 0)
        = Inr ((new_JSip8 0)\<lparr>pc := Undefined, sp := -1\<rparr>)"
    by (simp add: js_defs op_defs Let_def)
  have d: "op_CALL 0x2abc (new_JSip8 0)
        = (new_JSip8 0)\<lparr>sp := 1, stack := replicate 16 Undefined @ [Num 0], pc := Num 0xabc\<rparr>"
    by (simp add: js_defs op_defs)
  show ?thesis
    using a b c d by simp
qed

text \<open>
  C7, amended: \<^verbatim>\<open>2nnn\<close> increments the stack pointer, pushes the current program counter
  (the address of the call itself) onto the stack array and sets the program counter to
  \<open>nnn\<close>; \<^verbatim>\<open>00EE\<close> decrements the stack pointer; neither fails, whatever the depth of the
  stack; and a call immediately followed by a return leaves the stack pointer at its
  depth before the call.
\<close>

theorem call_ret_never_fail:
  assumes call: "opcode_of c1 c2 AND 0xf000 = 0x2000"
    and ret: "opcode_of r1 r2 = 0x00ee"
  shows "executeOpcode c1 c2 st
           = Inr (st\<lparr>sp := sp st + 1, stack := stack st @ [pc st],
                     pc := num (opcode_of c1 c2 AND 0x0fff)\<rparr>)
       \<and> (\<exists>st'. executeOpcode r1 r2 st = Inr st' \<and> sp st' = sp st - 1)
       \<and> (\<exists>st1 st2. executeOpcode c1 c2 st = Inr st1 \<and> executeOpcode r1 r2 st1 = Inr st2
             \<and> sp st2 = sp st)"
proof -
  have c: "executeOpcode c1 c2 st = Inr (op_CALL (opcode_of c1 c2) st)"
    using call by (simp add: executeOpcode_def Let_def)
  have r: "executeOpcode r1 r2 s = Inr (op_RET s)" for s
    using ret by (simp add: executeOpcode_def Let_def)
  show ?thesis
    by (simp add: c r op_CALL_def op_RET_def)
qed

text \<open>The call \<^verbatim>\<open>2abc\<close> and the return \<^verbatim>\<open>00ee\<close> on a new interpreter.\<close>

theorem call_ret_never_fail_witness:
  "opcode_of (Num 0x2a) (Num 0xbc) AND 0xf000 = 0x2000
   \<and> opcode_of (Num 0x00) (Num 0xee) = 0x00ee
   \<and> executeOpcode (Num 0x2a) (Num 0xbc) (new_JSip8 0)
        = Inr ((new_JSip8 0)\<lparr>sp := 1, stack := replicate 16 Undefined @ [Num 0],
                               pc := Num 0xabc\<rparr>)
   \<and> (\<exists>st'. executeOpcode (Num 0x00) (Num 0xee) (new_JSip8 0) = Inr st' \<and> sp st' = -1)"
proof -
  have a: "opcode_of (Num 0x2a) (Num 0xbc) AND 0xf000 = 0x2000"
    by (simp add: js_defs opcode_of_def)
  have b: "opcode_of (Num 0x00) (Num 0xee) = 0x00ee"
    by (simp add: js_defs opcode_of_def)
  have c: "opcode_of (Num 0x2a) (Num 0xbc) AND 0x0fff = 0xabc"
    by (simp add: js_defs opcode_of_def)
  show ?thesis
    using a b call_ret_never_fail [OF a b, of "new_JSip8 0"]
    by (simp add: c num_def new_JSip8_def reset_def)
qed

section \<open>Undeclared operands\<close>

text \<open>The instruction word of two bytes, and its top nibble.\<close>

lemma toInt32_num: "- (2 ^ 31) \<le> b \<Longrightarrow> b < 2 ^ 31 \<Longrightarrow> toInt32 (num b) = b"
  by (simp add: num_def js_trunc_def int32_def signed_take_bit_int_eq_self)

lemma low_byte_and:
  assumes "0 \<le> b" "b < 256"
  shows "(b::int) AND 0xf000 = 0"
proof -
  have lo: "0 \<le> b AND 0xf000"
    using assms by simp
  have "b AND 0xf000 \<le> b"
    using assms(1) by (rule AND_upper1)
  then have hi: "b AND 0xf000 < 2 ^ 8"
    using assms(2) by simp
  have "take_bit 8 (b AND 0xf000) = b AND 0xf000"
    using lo hi by (rule take_bit_int_eq_self)
  moreover have "take_bit 8 (b AND 0xf000) = 0"
    by (simp add: take_bit_and)
  ultimately show ?thesis by simp
qed

lemma opcode_group:
  assumes "0 \<le> b1" "b1 < 256" "0 \<le> b2" "b2 < 256"
  shows "opcode_of (num b1) (num b2) AND 0xf000 = push_bit 8 b1 AND 0xf000"
proof -
  have s: "int32 (push_bit 8 b1) = push_bit 8 b1"
    using assms by (simp add: int32_def signed_take_bit_int_eq_self push_bit_eq_mult)
  have "opcode_of (num b1) (num b2) = push_bit 8 b1 OR b2"
    using assms by (simp add: opcode_of_def js_shl_def toInt32_num s)
  then show ?thesis
    using assms by (simp add: bit.conj_disj_distrib2 low_byte_and)
qed

lemma group_9:
  assumes "0x90 \<le> b1" "b1 \<le> 0x9f"
  shows "push_bit 8 (b1::int) AND 0xf000 = 0x9000"
proof -
  have "b1 = 0x90 \<or> b1 = 0x91 \<or> b1 = 0x92 \<or> b1 = 0x93 \<or> b1 = 0x94 \<or> b1 = 0x95
      \<or> b1 = 0x96 \<or> b1 = 0x97 \<or> b1 = 0x98 \<or> b1 = 0x99 \<or> b1 = 0x9a \<or> b1 = 0x9b
      \<or> b1 = 0x9c \<or> b1 = 0x9d \<or> b1 = 0x9e \<or> b1 = 0x9f"
    using assms by arith
  then show ?thesis by auto
qed

lemma group_c:
  assumes "0xc0 \<le> b1" "b1 \<le> 0xcf"
  shows "push_bit 8 (b1::int) AND 0xf000 = 0xc000"
proof -
  have "b1 = 0xc0 \<or> b1 = 0xc1 \<or> b1 = 0xc2 \<or> b1 = 0xc3 \<or> b1 = 0xc4 \<or> b1 = 0xc5
      \<or> b1 = 0xc6 \<or> b1 = 0xc7 \<or> b1 = 0xc8 \<or> b1 = 0xc9 \<or> b1 = 0xca \<or> b1 = 0xcb
      \<or> b1 = 0xcc \<or> b1 = 0xcd \<or> b1 = 0xce \<or> b1 = 0xcf"
    using assms by arith
  then show ?thesis by auto
qed

text \<open>
  C10: every instruction word whose top nibble is \<open>0x9\<close> or \<open>0xC\<close> makes \<^verbatim>\<open>executeOpcode\<close>
  raise \<^verbatim>\<open>ReferenceError\<close>, with the state as it was before the instruction. This is
  stated on the word that \<^verbatim>\<open>executeOpcode\<close> decodes, and on the two bytes of every
  instruction \<^verbatim>\<open>9xy_\<close> and \<^verbatim>\<open>Cxkk\<close>.
\<close>

theorem undeclared_operands_raise:
  "(opcode_of byte1 byte2 AND 0xf000 = 0x9000 \<or> opcode_of byte1 byte2 AND 0xf000 = 0xc000
      \<longrightarrow> executeOpcode byte1 byte2 st = Inl (ReferenceError, st))
   \<and> (0 \<le> b2 \<and> b2 \<le> 0xff \<and> (0x90 \<le> b1 \<and> b1 \<le> 0x9f \<or> 0xc0 \<le> b1 \<and> b1 \<le> 0xcf)
      \<longrightarrow> executeOpcode (num b1) (num b2) st = Inl (ReferenceError, st))"
proof -
  have w: "executeOpcode c d st = Inl (ReferenceError, st)"
    if "opcode_of c d AND 0xf000 = 0x9000 \<or> opcode_of c d AND 0xf000 = 0xc000" for c d
    using that by (auto simp add: executeOpcode_def Let_def)
  have "opcode_of (num b1) (num b2) AND 0xf000 = 0x9000
        \<or> opcode_of (num b1) (num b2) AND 0xf000 = 0xc000"
    if "0 \<le> b2 \<and> b2 \<le> 0xff \<and> (0x90 \<le> b1 \<and> b1 \<le> 0x9f \<or> 0xc0 \<le> b1 \<and> b1 \<le> 0xcf)"
    using that by (auto simp add: opcode_group group_9 group_c)
  then show ?thesis
    using w by blast
qed

text \<open>The instructions \<^verbatim>\<open>9120\<close> and \<^verbatim>\<open>c1ff\<close> on a new interpreter.\<close>

theorem undeclared_operands_raise_witness:
  "opcode_of (Num 0x91) (Num 0x20) AND 0xf000 = 0x9000
   \<and> executeOpcode (Num 0x91) (Num 0x20) (new_JSip8 0) = Inl (ReferenceError, new_JSip8 0)
   \<and> executeOpcode (num 0xc1) (num 0xff) (new_JSip8 0) = Inl (ReferenceError, new_JSip8 0)"
proof -
  have a: "opcode_of (Num 0x91) (Num 0x20) AND 0xf000 = 0x9000"
    by (simp add: js_defs opcode_of_def)
  show ?thesis
    using a undeclared_operands_raise [of "Num 0x91" "Num 0x20" "new_JSip8 0" "0xff" "0xc1"]
    by simp
qed

end
